theory Spec2Isabelle
  imports Complex_Main "HOL-Library.Word"
begin

section \<open>The ztrace receiver: data model\<close>

text \<open>
  Shallow embedding of \<^verbatim>\<open>receiver/ztracereceiver\<close> (tracer.go, receiver.go and the
  package's Config). Go's \<^verbatim>\<open>int\<close> is modelled as \<open>int\<close>: every integer the code
  computes stays far below 64 bits (the hop loop stops at ttl 15 at the latest, see
  \<open>traceHop\<close>). \<^verbatim>\<open>float64\<close> is modelled as \<open>real\<close>: the code only compares
  these values with \<open><\<close>, copies them and converts them to integers, and the values
  the tracer itself produces are conversions of small integers, which are exact. NaN and
  the infinities are outside the model.
\<close>

text \<open>\<^verbatim>\<open>type hopInfo struct\<close> (tracer.go).\<close>

record hopInfo =
  ttl :: int
  ip :: string
  hostname :: string
  latency :: real
  packetLoss :: real
  jitter :: real
  city :: string
  country :: string
  asn :: string
  provider :: string

text \<open>\<^verbatim>\<open>type traceResult struct\<close> (tracer.go).\<close>

record traceResult =
  hops :: "hopInfo list"
  totalLatency :: real
  targetReached :: bool

text \<open>
  \<^verbatim>\<open>type TargetConfig struct\<close>. \<^verbatim>\<open>Tags\<close> is a Go map; the projections only range
  over it, so it is given as the list of its entries in the order the range statement
  visits them (keys distinct).
\<close>

record TargetConfig =
  Endpoint :: string
  Port :: int
  Tags :: "(string \<times> string) list"

text \<open>
  \<^verbatim>\<open>type Config struct\<close>, without the embedded HTTP server settings, which the
  modelled code never reads. Durations are nanoseconds.
\<close>

record Config =
  Targets :: "TargetConfig list"
  CollectionInterval :: int
  Timeout :: int
  Protocol :: string
  MaxHops :: int
  PacketSize :: int
  Retries :: int
  EnableGeolocation :: bool
  EnableASNLookup :: bool

text \<open>
  The errors \<^verbatim>\<open>trace\<close> can return: the wrapped resolution error (endpoint and the
  resolver's message) and the two values of \<^verbatim>\<open>ctx.Err()\<close>.
\<close>

datatype error =
  ResolutionError string string
  | Canceled
  | DeadlineExceeded

text \<open>The zero value of \<^verbatim>\<open>hopInfo\<close> with \<^verbatim>\<open>ttl\<close> set: \<^verbatim>\<open>hopInfo{ttl: ttl}\<close>.\<close>

definition hopInfo_ttl :: "int \<Rightarrow> hopInfo" where
  "hopInfo_ttl t =
     \<lparr>ttl = t, ip = '''', hostname = '''', latency = 0, packetLoss = 0, jitter = 0,
      city = '''', country = '''', asn = '''', provider = ''''\<rparr>"

section \<open>Formatting integers (\<^verbatim>\<open>%d\<close>)\<close>

fun nat_dec :: "nat \<Rightarrow> string" where
  "nat_dec n =
     (if n < 10 then [''0123456789'' ! n]
      else nat_dec (n div 10) @ [''0123456789'' ! (n mod 10)])"

declare nat_dec.simps [simp del]

definition itoa :: "int \<Rightarrow> string" where
  "itoa i = (if i < 0 then CHR ''-'' # nat_dec (nat (- i)) else nat_dec (nat i))"

section \<open>The random source (\<^verbatim>\<open>math/rand\<close>)\<close>

text \<open>
  \<^verbatim>\<open>math/rand\<close> is a library outside the repository. Its global source is modelled as
  an arbitrary infinite sequence of raw draws together with the position of the next
  draw. \<^verbatim>\<open>rand.Intn(n)\<close> returns a value in \<open>[0, n)\<close> and \<^verbatim>\<open>rand.Float64()\<close> a
  multiple of \<open>2\<^sup>-\<^sup>5\<^sup>3\<close> in \<open>[0, 1)\<close>; every sequence of results the library can
  produce is the image of some sequence of raw draws.
\<close>

type_synonym rng = "(nat \<Rightarrow> nat) \<times> nat"

definition Intn :: "rng \<Rightarrow> nat \<Rightarrow> int \<times> rng" where
  "Intn g n = (int (fst g (snd g) mod n), (fst g, Suc (snd g)))"

definition Float64 :: "rng \<Rightarrow> real \<times> rng" where
  "Float64 g =
     (real (fst g (snd g) mod 9007199254740992) / 9007199254740992, (fst g, Suc (snd g)))"

section \<open>The tracer (tracer.go)\<close>

text \<open>
  \<^verbatim>\<open>traceHop\<close>. The \<^verbatim>\<open>switch\<close> picks the first true case; the draws are made in the
  order of the source: the latency draw of the case taken (none for a timeout), then
  \<^verbatim>\<open>rand.Float64()\<close>, then the packet-loss draw if that was below 0.1, then the jitter
  draw if the latency is positive. \<open>target\<close> is \<^verbatim>\<open>target.String()\<close>.
\<close>

definition traceHop_case :: "int \<Rightarrow> string \<Rightarrow> Config \<Rightarrow> rng \<Rightarrow> hopInfo \<times> rng" where
  "traceHop_case t target config g =
     (let hop = hopInfo_ttl t in
      if t \<le> 3 then
        (let (r, g1) = Intn g 5 in
         (hop\<lparr>ip := ''192.168.1.'' @ itoa t,
              latency := real_of_int (r + 1),
              hostname := ''router-'' @ itoa t @ ''.local''\<rparr>, g1))
      else if t \<le> 8 then
        (let (r, g1) = Intn g 20;
             hop1 = hop\<lparr>ip := ''10.'' @ itoa t @ ''.'' @ itoa (t * 10) @ ''.1'',
                        latency := real_of_int (r + 5),
                        hostname := ''isp-router-'' @ itoa t @ ''.example.net''\<rparr>
         in (if EnableASNLookup config
             then hop1\<lparr>asn := ''AS'' @ itoa (64500 + t), provider := ''Example ISP''\<rparr>
             else hop1, g1))
      else if t \<le> 12 then
        (let (r, g1) = Intn g 50;
             hop1 = hop\<lparr>ip := ''203.0.'' @ itoa t @ ''.1'',
                        latency := real_of_int (r + 20)\<rparr>;
             hop2 = (if EnableGeolocation config
                     then hop1\<lparr>city := ''San Francisco'', country := ''United States''\<rparr>
                     else hop1)
         in (if EnableASNLookup config
             then hop2\<lparr>asn := ''AS'' @ itoa 15169, provider := ''Google LLC''\<rparr>
             else hop2, g1))
      else if t \<ge> 15 then
        (let (r, g1) = Intn g 100;
             hop1 = hop\<lparr>ip := target,
                        latency := real_of_int (r + 50),
                        hostname := ''target.example.com''\<rparr>
         in (if EnableGeolocation config
             then hop1\<lparr>city := ''Mountain View'', country := ''United States''\<rparr>
             else hop1, g1))
      else (hop\<lparr>ip := '''', latency := 0\<rparr>, g))"

definition traceHop :: "int \<Rightarrow> string \<Rightarrow> Config \<Rightarrow> rng \<Rightarrow> hopInfo \<times> rng" where
  "traceHop t target config g =
     (let (hop, g1) = traceHop_case t target config g;
          (f, g2) = Float64 g1;
          (hop1, g3) = (if f < 0.1
                        then (let (r, g') = Intn g2 20 in (hop\<lparr>packetLoss := real_of_int r\<rparr>, g'))
                        else (hop, g2))
      in if latency hop1 > 0
         then (let (r, g4) = Intn g3 5 in (hop1\<lparr>jitter := real_of_int r\<rparr>, g4))
         else (hop1, g3))"

text \<open>
  The second loop of \<^verbatim>\<open>trace\<close>: \<^verbatim>\<open>result.totalLatency\<close> starts at the zero value and
  is replaced by every strictly greater hop latency.
\<close>

definition calcTotalLatency :: "hopInfo list \<Rightarrow> real" where
  "calcTotalLatency hs = foldl (\<lambda>acc hop. if latency hop > acc then latency hop else acc) 0 hs"

text \<open>
  The first loop of \<^verbatim>\<open>trace\<close>, from the iteration for \<open>t\<close> on, with the hops appended
  so far. \<open>ctx t\<close> is what the \<^verbatim>\<open>select\<close> at the start of iteration \<open>t\<close> finds:
  \<open>None\<close> while \<^verbatim>\<open>ctx.Done()\<close> is open (the \<^verbatim>\<open>default\<close> case), \<open>Some e\<close> with
  \<open>e = ctx.Err()\<close> once it is closed. The result is Go's pair of a result pointer and an
  error (\<open>None\<close> for \<^verbatim>\<open>nil\<close>), the value of \<^verbatim>\<open>targetReached\<close> being carried in the
  result, and the random source as the loop leaves it.
\<close>

function trace_loop ::
  "(int \<Rightarrow> error option) \<Rightarrow> string \<Rightarrow> Config \<Rightarrow> int \<Rightarrow> hopInfo list \<Rightarrow> rng
     \<Rightarrow> (hopInfo list \<times> bool) option \<times> error option \<times> rng" where
  "trace_loop ctx addr config t hs g =
     (if t \<le> MaxHops config then
        (case ctx t of
           Some e \<Rightarrow> (None, Some e, g)
         | None \<Rightarrow>
             (let (hop, g') = traceHop t addr config g;
                  hs' = hs @ [hop]
              in if ip hop = addr then (Some (hs', True), None, g')
                 else if ip hop = '''' then trace_loop ctx addr config (t + 1) hs' g'
                 else trace_loop ctx addr config (t + 1) hs' g'))
      else (Some (hs, False), None, g))"
  by pat_completeness auto
termination
  by (relation "measure (\<lambda>(ctx, addr, config, t, hs, g). nat (MaxHops config + 1 - t))") auto

declare trace_loop.simps [simp del]

text \<open>
  \<^verbatim>\<open>trace\<close>. \<open>resolve\<close> stands for \<^verbatim>\<open>net.ResolveIPAddr("ip4", _)\<close>: \<open>Inl msg\<close> is
  its error, \<open>Inr a\<close> the resolved address, \<open>a\<close> being \<^verbatim>\<open>addr.String()\<close>. The debug
  log entry has no effect on the result and is left out.
\<close>

definition trace ::
  "(string \<Rightarrow> string + string) \<Rightarrow> (int \<Rightarrow> error option) \<Rightarrow> TargetConfig \<Rightarrow> Config \<Rightarrow> rng
     \<Rightarrow> traceResult option \<times> error option \<times> rng" where
  "trace resolve ctx target config g =
     (case resolve (Endpoint target) of
        Inl msg \<Rightarrow> (None, Some (ResolutionError (Endpoint target) msg), g)
      | Inr addr \<Rightarrow>
          (case trace_loop ctx addr config 1 [] g of
             (None, err, g') \<Rightarrow> (None, err, g')
           | (Some (hs, reached), err, g') \<Rightarrow>
               (Some \<lparr>hops = hs, totalLatency = calcTotalLatency hs, targetReached = reached\<rparr>,
                None, g')))"

text \<open>
  The hop records and the random source after \<open>n\<close> successive probes for the ttl
  values \<open>t, t + 1, \<dots>\<close>, none skipped: what the loop has appended and consumed after
  \<open>n\<close> full iterations. It is used to say which probes a run made.
\<close>

fun probes :: "string \<Rightarrow> Config \<Rightarrow> nat \<Rightarrow> int \<Rightarrow> rng \<Rightarrow> hopInfo list \<times> rng" where
  "probes addr config 0 t g = ([], g)"
| "probes addr config (Suc n) t g =
     (let (hop, g') = traceHop t addr config g;
          (hs, g'') = probes addr config n (t + 1) g'
      in (hop # hs, g''))"

text \<open>
  What holds when the loop, started at \<open>t\<close>, leaves after \<open>n\<close> probes with the flag
  \<open>b\<close>: the budget is respected, no cancellation was seen, no hop but possibly the last
  has the target's address, and the flag says whether the last one has.
\<close>

definition loop_post ::
  "(int \<Rightarrow> error option) \<Rightarrow> string \<Rightarrow> Config \<Rightarrow> int \<Rightarrow> rng \<Rightarrow> nat \<Rightarrow> bool \<Rightarrow> bool" where
  "loop_post ctx addr config t g n b =
     (int n \<le> max 0 (MaxHops config + 1 - t) \<and>
      (\<forall>j. t \<le> j \<and> j < t + int n \<longrightarrow> ctx j = None) \<and>
      (\<forall>h \<in> set (butlast (fst (probes addr config n t g))). ip h \<noteq> addr) \<and>
      (if b then 0 < n \<and> ip (last (fst (probes addr config n t g))) = addr
       else int n = max 0 (MaxHops config + 1 - t) \<and>
            (\<forall>h \<in> set (fst (probes addr config n t g)). ip h \<noteq> addr)))"

section \<open>Configuration validation\<close>

text \<open>
  The errors of \<^verbatim>\<open>Config.Validate\<close>, one constructor for each message, with the values
  the message is formatted from (target index, protocol).
\<close>

datatype config_error =
  NoTargets
  | EmptyEndpoint nat
  | PortNotSpecified nat string
  | CollectionIntervalNotPositive
  | TimeoutNotPositive
  | InvalidProtocol string
  | MaxHopsOutOfRange
  | PacketSizeOutOfRange
  | NegativeRetries

text \<open>
  The loop of \<^verbatim>\<open>Validate\<close> over the targets, from index \<open>i\<close> on: it returns at the
  first target that fails a check.
\<close>

fun validateTargets :: "string \<Rightarrow> nat \<Rightarrow> TargetConfig list \<Rightarrow> config_error option" where
  "validateTargets proto i [] = None"
| "validateTargets proto i (target # ts) =
     (if Endpoint target = '''' then Some (EmptyEndpoint i)
      else if proto \<noteq> ''icmp'' \<and> Port target \<le> 0 then Some (PortNotSpecified i proto)
      else validateTargets proto (Suc i) ts)"

text \<open>\<^verbatim>\<open>Config.Validate\<close>: the first failing check decides; \<open>None\<close> is \<^verbatim>\<open>nil\<close>.\<close>

definition Validate :: "Config \<Rightarrow> config_error option" where
  "Validate cfg =
     (if length (Targets cfg) = 0 then Some NoTargets
      else case validateTargets (Protocol cfg) 0 (Targets cfg) of
        Some e \<Rightarrow> Some e
      | None \<Rightarrow>
          if CollectionInterval cfg \<le> 0 then Some CollectionIntervalNotPositive
          else if Timeout cfg \<le> 0 then Some TimeoutNotPositive
          else if Protocol cfg \<noteq> ''udp'' \<and> Protocol cfg \<noteq> ''icmp'' \<and> Protocol cfg \<noteq> ''tcp''
          then Some (InvalidProtocol (Protocol cfg))
          else if MaxHops cfg \<le> 0 \<or> MaxHops cfg > 64 then Some MaxHopsOutOfRange
          else if PacketSize cfg \<le> 0 \<or> PacketSize cfg > 65535 then Some PacketSizeOutOfRange
          else if Retries cfg < 0 then Some NegativeRetries
          else None)"

section \<open>Telemetry data (\<^verbatim>\<open>pdata\<close>)\<close>

text \<open>
  The \<^verbatim>\<open>pdata\<close> containers are a library outside the repository; they are modelled by
  the data the receiver stores in them. An attribute map is the list of its entries in
  insertion order; \<^verbatim>\<open>PutStr\<close>, \<^verbatim>\<open>PutInt\<close> and \<^verbatim>\<open>PutDouble\<close> overwrite the value of
  a key that is present and append the entry otherwise.
\<close>

datatype avalue = AStr string | AInt int | ADouble real

type_synonym attrs = "(string \<times> avalue) list"

fun Put :: "attrs \<Rightarrow> string \<Rightarrow> avalue \<Rightarrow> attrs" where
  "Put [] k v = [(k, v)]"
| "Put ((k', v') # m) k v = (if k' = k then (k', v) # m else (k', v') # Put m k v)"

text \<open>\<^verbatim>\<open>for k, v := range target.Tags { attributes.PutStr(k, v) }\<close>\<close>

definition putTags :: "attrs \<Rightarrow> (string \<times> string) list \<Rightarrow> attrs" where
  "putTags m tags = foldl (\<lambda>m (k, v). Put m k (AStr v)) m tags"

text \<open>
  Timestamps are nanoseconds since the epoch, as integers; the conversions between
  \<^verbatim>\<open>time.Time\<close> and \<^verbatim>\<open>pcommon.Timestamp\<close> are the identity for every instant
  between the years 1970 and 2262.
\<close>

datatype number = DoubleValue real | IntValue int

record NumberDataPoint =
  dp_timestamp :: int
  dp_value :: number
  dp_attributes :: attrs

text \<open>A metric with a gauge: name, description, unit and the gauge's data points.\<close>

record Metric =
  m_name :: string
  m_description :: string
  m_unit :: string
  m_gauge :: "NumberDataPoint list"

text \<open>
  \<^verbatim>\<open>pmetric.Metrics\<close> as \<^verbatim>\<open>convertToMetrics\<close> builds it: one resource with its
  attributes and one scope with its name, version and metrics.
\<close>

record Metrics =
  rm_attributes :: attrs
  sm_scope_name :: string
  sm_scope_version :: string
  sm_metrics :: "Metric list"

datatype SpanKind =
  SpanKindUnspecified | SpanKindInternal | SpanKindServer | SpanKindClient
  | SpanKindProducer | SpanKindConsumer

type_synonym byte = "8 word"

record SpanEvent =
  ev_name :: string
  ev_timestamp :: int
  ev_attributes :: attrs

record Span =
  sp_name :: string
  sp_kind :: SpanKind
  sp_traceID :: "byte list"
  sp_spanID :: "byte list"
  sp_parentSpanID :: "byte list"
  sp_start :: int
  sp_end :: int
  sp_attributes :: attrs
  sp_events :: "SpanEvent list"

text \<open>
  \<^verbatim>\<open>ptrace.Traces\<close> as \<^verbatim>\<open>convertToTraces\<close> builds it: one resource, one scope and
  its spans in the order they were appended.
\<close>

record Traces =
  rs_attributes :: attrs
  ss_scope_name :: string
  ss_scope_version :: string
  ss_spans :: "Span list"

section \<open>The metrics projection (receiver.go)\<close>

text \<open>The metrics one iteration of the hop loop of \<^verbatim>\<open>convertToMetrics\<close> appends.\<close>

definition hopMetrics :: "Config \<Rightarrow> int \<Rightarrow> hopInfo \<Rightarrow> Metric list" where
  "hopMetrics config timestamp hop =
     (let a1 = Put (Put [] ''ttl'' (AInt (ttl hop))) ''ip'' (AStr (ip hop));
          a2 = (if hostname hop \<noteq> '''' then Put a1 ''hostname'' (AStr (hostname hop)) else a1);
          a3 = (if EnableGeolocation config \<and> city hop \<noteq> ''''
                then Put (Put a2 ''city'' (AStr (city hop))) ''country'' (AStr (country hop))
                else a2);
          a4 = (if EnableASNLookup config \<and> asn hop \<noteq> ''''
                then Put (Put a3 ''asn'' (AStr (asn hop))) ''provider'' (AStr (provider hop))
                else a3);
          latencyMetric =
            \<lparr>m_name = ''ztrace.hop.latency'',
             m_description = ''Latency for each hop in the trace'',
             m_unit = ''ms'',
             m_gauge = [\<lparr>dp_timestamp = timestamp, dp_value = DoubleValue (latency hop),
                         dp_attributes = a4\<rparr>]\<rparr>;
          lossMetric =
            \<lparr>m_name = ''ztrace.hop.packet_loss'',
             m_description = ''Packet loss percentage for each hop'',
             m_unit = ''%'',
             m_gauge = [\<lparr>dp_timestamp = timestamp, dp_value = DoubleValue (packetLoss hop),
                         dp_attributes = a1\<rparr>]\<rparr>;
          jitterMetric =
            \<lparr>m_name = ''ztrace.hop.jitter'',
             m_description = ''Jitter for each hop in the trace'',
             m_unit = ''ms'',
             m_gauge = [\<lparr>dp_timestamp = timestamp, dp_value = DoubleValue (jitter hop),
                         dp_attributes = a1\<rparr>]\<rparr>
      in [latencyMetric]
         @ (if packetLoss hop > 0 then [lossMetric] else [])
         @ (if jitter hop > 0 then [jitterMetric] else []))"

text \<open>
  \<^verbatim>\<open>convertToMetrics\<close>; \<open>now\<close> is the reading of \<^verbatim>\<open>time.Now()\<close>. The hop loop
  appends the metrics of each hop in turn.
\<close>

definition convertToMetrics :: "Config \<Rightarrow> traceResult \<Rightarrow> TargetConfig \<Rightarrow> int \<Rightarrow> Metrics" where
  "convertToMetrics config result target now =
     (let r1 = Put (Put [] ''ztrace.target'' (AStr (Endpoint target)))
                 ''ztrace.protocol'' (AStr (Protocol config));
          r2 = (if Port target > 0 then Put r1 ''ztrace.port'' (AInt (Port target)) else r1);
          r3 = putTags r2 (Tags target);
          timestamp = now;
          totalLatencyMetric =
            \<lparr>m_name = ''ztrace.total_latency'',
             m_description = ''Total latency to reach the target'',
             m_unit = ''ms'',
             m_gauge = [\<lparr>dp_timestamp = timestamp, dp_value = DoubleValue (totalLatency result),
                         dp_attributes = []\<rparr>]\<rparr>;
          hopCountMetric =
            \<lparr>m_name = ''ztrace.hop_count'',
             m_description = ''Number of hops to reach the target'',
             m_unit = ''1'',
             m_gauge = [\<lparr>dp_timestamp = timestamp,
                         dp_value = IntValue (int (length (hops result))),
                         dp_attributes = []\<rparr>]\<rparr>
      in \<lparr>rm_attributes = r3,
          sm_scope_name = ''ztrace'',
          sm_scope_version = ''1.0.0'',
          sm_metrics =
            concat (map (hopMetrics config timestamp) (hops result))
            @ (if totalLatency result > 0 then [totalLatencyMetric] else [])
            @ [hopCountMetric]\<rparr>)"

section \<open>The trace projection (receiver.go)\<close>

text \<open>
  \<^verbatim>\<open>time.Duration(x)\<close> for a \<^verbatim>\<open>float64\<close>: Go's conversion to an integer discards the
  fraction (truncation towards zero).
\<close>

definition Duration_of_float :: "real \<Rightarrow> int" where
  "Duration_of_float x = (if x < 0 then - \<lfloor>- x\<rfloor> else \<lfloor>x\<rfloor>)"

text \<open>\<^verbatim>\<open>time.Millisecond\<close> in nanoseconds.\<close>

definition Millisecond :: int where
  "Millisecond = 1000000"

text \<open>\<^verbatim>\<open>pcommon.TraceID([16]byte{})\<close> and \<^verbatim>\<open>pcommon.SpanID([8]byte{})\<close>.\<close>

definition zeroTraceID :: "byte list" where
  "zeroTraceID = replicate 16 0"

definition zeroSpanID :: "byte list" where
  "zeroSpanID = replicate 8 0"

text \<open>
  \<^verbatim>\<open>pcommon.SpanID([8]byte{byte(hop.ttl)})\<close>: the conversion to \<^verbatim>\<open>byte\<close> keeps the
  low eight bits, the other seven bytes are zero.
\<close>

definition hopSpanID :: "int \<Rightarrow> byte list" where
  "hopSpanID t = word_of_int t # replicate 7 0"

text \<open>The span one iteration of the hop loop of \<^verbatim>\<open>convertToTraces\<close> appends.\<close>

definition hopSpan :: "Config \<Rightarrow> byte list \<Rightarrow> byte list \<Rightarrow> int \<Rightarrow> hopInfo \<Rightarrow> Span" where
  "hopSpan config traceID rootSpanID startTime hop =
     (let hopStartTime = startTime;
          hopEndTime = startTime + Duration_of_float (latency hop) * Millisecond;
          a1 = Put (Put (Put [] ''ttl'' (AInt (ttl hop))) ''ip'' (AStr (ip hop)))
                 ''latency.ms'' (ADouble (latency hop));
          a2 = (if hostname hop \<noteq> '''' then Put a1 ''hostname'' (AStr (hostname hop)) else a1);
          a3 = (if packetLoss hop > 0
                then Put a2 ''packet_loss.percent'' (ADouble (packetLoss hop)) else a2);
          a4 = (if jitter hop > 0 then Put a3 ''jitter.ms'' (ADouble (jitter hop)) else a3);
          a5 = (if EnableGeolocation config \<and> city hop \<noteq> ''''
                then Put (Put a4 ''geo.city'' (AStr (city hop)))
                       ''geo.country'' (AStr (country hop))
                else a4);
          a6 = (if EnableASNLookup config \<and> asn hop \<noteq> ''''
                then Put (Put a5 ''network.asn'' (AStr (asn hop)))
                       ''network.provider'' (AStr (provider hop))
                else a5)
      in \<lparr>sp_name = ''hop '' @ itoa (ttl hop) @ '': '' @ ip hop,
          sp_kind = SpanKindClient,
          sp_traceID = traceID,
          sp_spanID = hopSpanID (ttl hop),
          sp_parentSpanID = rootSpanID,
          sp_start = hopStartTime,
          sp_end = hopEndTime,
          sp_attributes = a6,
          sp_events =
            (if packetLoss hop > 50
             then [\<lparr>ev_name = ''high_packet_loss'', ev_timestamp = hopEndTime,
                    ev_attributes = Put [] ''packet_loss.percent'' (ADouble (packetLoss hop))\<rparr>]
             else [])\<rparr>)"

text \<open>
  \<^verbatim>\<open>convertToTraces\<close>. The function reads the clock twice: \<open>now1\<close> is the reading the
  start timestamp is computed from and \<open>now2\<close> the later reading that becomes the end
  timestamp. The root span's parent id is never set and keeps its zero value.
\<close>

definition convertToTraces ::
  "Config \<Rightarrow> traceResult \<Rightarrow> TargetConfig \<Rightarrow> int \<Rightarrow> int \<Rightarrow> Traces" where
  "convertToTraces config result target now1 now2 =
     (let r1 = Put (Put (Put [] ''ztrace.target'' (AStr (Endpoint target)))
                      ''ztrace.protocol'' (AStr (Protocol config)))
                 ''service.name'' (AStr ''ztrace'');
          r2 = (if Port target > 0 then Put r1 ''ztrace.port'' (AInt (Port target)) else r1);
          r3 = putTags r2 (Tags target);
          traceID = zeroTraceID;
          rootSpanID = zeroSpanID;
          startTime = now1 + (- Duration_of_float (totalLatency result)) * Millisecond;
          endTime = now2;
          rootSpan =
            \<lparr>sp_name = ''traceroute to '' @ Endpoint target,
             sp_kind = SpanKindClient,
             sp_traceID = traceID,
             sp_spanID = rootSpanID,
             sp_parentSpanID = zeroSpanID,
             sp_start = startTime,
             sp_end = endTime,
             sp_attributes =
               Put (Put [] ''hop.count'' (AInt (int (length (hops result)))))
                 ''total.latency.ms'' (ADouble (totalLatency result)),
             sp_events = []\<rparr>
      in \<lparr>rs_attributes = r3,
          ss_scope_name = ''ztrace'',
          ss_scope_version = ''1.0.0'',
          ss_spans = rootSpan # map (hopSpan config traceID rootSpanID startTime) (hops result)\<rparr>)"

section \<open>Starting and stopping the receiver (receiver.go)\<close>

text \<open>
  The part of \<^verbatim>\<open>ztraceReceiver\<close> that \<^verbatim>\<open>Start\<close> and \<^verbatim>\<open>Shutdown\<close> work on: the stop
  channel (\<^verbatim>\<open>nil\<close>, open or closed), whether \<^verbatim>\<open>stopOnce\<close> has run, the counter of the
  wait group, which is the number of \<^verbatim>\<open>collect\<close> goroutines that have not returned, and
  the tracer (\<open>None\<close> for \<^verbatim>\<open>nil\<close>, else its protocol). The field
  \<^verbatim>\<open>config\<close> is called \<open>rcv_config\<close> here.
\<close>

datatype chan = ChanNil | ChanOpen | ChanClosed

record ztraceReceiver =
  rcv_config :: Config
  stopCh :: chan
  stopOnce :: bool
  wg :: nat
  tracer :: "string option"

text \<open>What a call does: it returns, it panics, or it blocks forever.\<close>

datatype 'a outcome = Returns 'a | Panics string | Blocks

text \<open>
  \<^verbatim>\<open>Start\<close>: a fresh open stop channel, the tracer (\<^verbatim>\<open>newTracer\<close> never fails), and
  one \<^verbatim>\<open>wg.Add(1)\<close> and one \<^verbatim>\<open>collect\<close> goroutine per target. The returned error is
  always \<^verbatim>\<open>nil\<close>.
\<close>

definition Start :: "ztraceReceiver \<Rightarrow> error option \<times> ztraceReceiver" where
  "Start r =
     (None, r\<lparr>stopCh := ChanOpen,
              tracer := Some (Protocol (rcv_config r)),
              wg := wg r + length (Targets (rcv_config r))\<rparr>)"

text \<open>
  \<^verbatim>\<open>r.stopOnce.Do(func() { close(r.stopCh) })\<close>: the function runs only if no earlier
  \<^verbatim>\<open>Do\<close> ran it; closing a \<^verbatim>\<open>nil\<close> or a closed channel panics.
\<close>

definition stopOnce_Do_close :: "ztraceReceiver \<Rightarrow> ztraceReceiver outcome" where
  "stopOnce_Do_close r =
     (if stopOnce r then Returns r
      else case stopCh r of
        ChanNil \<Rightarrow> Panics ''close of nil channel''
      | ChanClosed \<Rightarrow> Panics ''close of closed channel''
      | ChanOpen \<Rightarrow> Returns (r\<lparr>stopOnce := True, stopCh := ChanClosed\<rparr>))"

text \<open>
  \<^verbatim>\<open>r.wg.Wait()\<close> returns when the counter is zero. A \<^verbatim>\<open>collect\<close> goroutine returns,
  and decrements the counter, only from the \<^verbatim>\<open>select\<close> case that finds the stop
  channel closed; it reaches that case after its current \<^verbatim>\<open>runTrace\<close>. So the wait
  ends with the counter at zero when the channel is closed, and never ends when
  goroutines are left and the channel is not closed. The interleaving of the goroutines
  is abstracted to this.
\<close>

definition wg_Wait :: "ztraceReceiver \<Rightarrow> ztraceReceiver outcome" where
  "wg_Wait r =
     (if wg r = 0 then Returns r
      else if stopCh r = ChanClosed then Returns (r\<lparr>wg := 0\<rparr>)
      else Blocks)"

text \<open>
  \<^verbatim>\<open>Shutdown\<close>: the guarded close, the wait, \<^verbatim>\<open>tracer.close()\<close> (which does nothing)
  and the log entry; the returned error is \<^verbatim>\<open>nil\<close>.
\<close>

definition Shutdown :: "ztraceReceiver \<Rightarrow> (error option \<times> ztraceReceiver) outcome" where
  "Shutdown r =
     (case stopOnce_Do_close r of
        Panics m \<Rightarrow> Panics m
      | Blocks \<Rightarrow> Blocks
      | Returns r1 \<Rightarrow>
          (case wg_Wait r1 of
             Panics m \<Rightarrow> Panics m
           | Blocks \<Rightarrow> Blocks
           | Returns r2 \<Rightarrow> Returns (None, r2)))"

text \<open>
  The receiver as the factory creates it (\<^verbatim>\<open>createMetricsReceiver\<close>,
  \<^verbatim>\<open>createTracesReceiver\<close>): the configuration is set, every other field has its zero
  value.
\<close>

definition createReceiver :: "Config \<Rightarrow> ztraceReceiver" where
  "createReceiver cfg =
     \<lparr>rcv_config = cfg, stopCh = ChanNil, stopOnce = False, wg = 0, tracer = None\<rparr>"

section \<open>Example inputs\<close>

text \<open>\<^verbatim>\<open>createDefaultConfig\<close> (factory.go); the default has no targets.\<close>

definition createDefaultConfig :: Config where
  "createDefaultConfig =
     \<lparr>Targets = [], CollectionInterval = 60000000000, Timeout = 10000000000,
      Protocol = ''udp'', MaxHops = 30, PacketSize = 56, Retries = 3,
      EnableGeolocation = True, EnableASNLookup = True\<rparr>"

text \<open>The target of the package's tests.\<close>

definition exampleTarget :: TargetConfig where
  "exampleTarget = \<lparr>Endpoint = ''example.com'', Port = 80, Tags = [(''env'', ''test'')]\<rparr>"

text \<open>A random source, by its raw draws, positioned at the first draw.\<close>

definition exampleRng :: rng where
  "exampleRng = (\<lambda>i. i * 7 + 3, 0)"

text \<open>
  The inputs of \<^verbatim>\<open>TestConvertToTraces\<close> (unset fields have Go's zero values). The
  decimal literals of the tests stand for the nearest \<^verbatim>\<open>float64\<close> values, which have
  the same integer parts and the same order.
\<close>

definition testTracesConfig :: Config where
  "testTracesConfig =
     \<lparr>Targets = [], CollectionInterval = 0, Timeout = 0, Protocol = ''icmp'', MaxHops = 0,
      PacketSize = 0, Retries = 0, EnableGeolocation = True, EnableASNLookup = True\<rparr>"

definition testTracesResult :: traceResult where
  "testTracesResult =
     \<lparr>hops =
        [\<lparr>ttl = 1, ip = ''192.168.1.1'', hostname = ''router.local'', latency = 2.5,
          packetLoss = 0, jitter = 0, city = '''', country = '''', asn = '''', provider = ''''\<rparr>,
         \<lparr>ttl = 2, ip = ''10.0.0.1'', hostname = ''gateway.isp.net'', latency = 10.2,
          packetLoss = 60, jitter = 0, city = '''', country = '''', asn = '''', provider = ''''\<rparr>],
      totalLatency = 12.7, targetReached = True\<rparr>"

definition testTracesTarget :: TargetConfig where
  "testTracesTarget = \<lparr>Endpoint = ''example.com'', Port = 0, Tags = [(''env'', ''prod'')]\<rparr>"

text \<open>The result of \<^verbatim>\<open>TestConvertToMetrics\<close>; its first hop carries enrichment data.\<close>

definition testMetricsResult :: traceResult where
  "testMetricsResult =
     \<lparr>hops =
        [\<lparr>ttl = 1, ip = ''192.168.1.1'', hostname = ''router.local'', latency = 2.5,
          packetLoss = 0, jitter = 0.5, city = ''San Francisco'', country = ''US'',
          asn = ''AS15169'', provider = ''Google''\<rparr>,
         \<lparr>ttl = 2, ip = ''10.0.0.1'', hostname = ''gateway.isp.net'', latency = 10.2,
          packetLoss = 5, jitter = 1.2, city = '''', country = '''', asn = '''', provider = ''''\<rparr>],
      totalLatency = 12.7, targetReached = True\<rparr>"

text \<open>A result whose only hop has no measured latency but a jitter value.\<close>

definition unmeasuredHopResult :: traceResult where
  "unmeasuredHopResult =
     \<lparr>hops =
        [\<lparr>ttl = 1, ip = ''192.168.1.1'', hostname = ''router.local'', latency = 0,
          packetLoss = 0, jitter = 0.5, city = '''', country = '''', asn = '''', provider = ''''\<rparr>],
      totalLatency = 0, targetReached = False\<rparr>"

section \<open>Observations on the projections\<close>

text \<open>The data points of the jitter gauges of a metrics batch, in order.\<close>

definition jitterSamples :: "Metrics \<Rightarrow> NumberDataPoint list" where
  "jitterSamples md =
     concat (map m_gauge (filter (\<lambda>m. m_name m = ''ztrace.hop.jitter'') (sm_metrics md)))"

text \<open>The attribute keys of the data points of a metrics batch.\<close>

definition dataPointKeys :: "Metrics \<Rightarrow> string set" where
  "dataPointKeys md =
     (\<Union>m \<in> set (sm_metrics md). \<Union>dp \<in> set (m_gauge m). fst ` set (dp_attributes dp))"

text \<open>The attribute keys of the spans of a trace batch and of their events.\<close>

definition spanKeys :: "Traces \<Rightarrow> string set" where
  "spanKeys td =
     (\<Union>s \<in> set (ss_spans td).
        fst ` set (sp_attributes s) \<union> (\<Union>ev \<in> set (sp_events s). fst ` set (ev_attributes ev)))"

text \<open>A hop record with its geolocation and ASN fields emptied.\<close>

definition clearEnrichment :: "hopInfo \<Rightarrow> hopInfo" where
  "clearEnrichment hop = hop\<lparr>city := '''', country := '''', asn := '''', provider := ''''\<rparr>"

section \<open>Properties of the tracer\<close>

lemma traceHop_ttl: "ttl (fst (traceHop t a c g)) = t"
  by (simp add: traceHop_def traceHop_case_def hopInfo_ttl_def Let_def case_prod_beta)

lemma traceHop_latency_nonneg: "0 \<le> latency (fst (traceHop t a c g))"
  by (simp add: traceHop_def traceHop_case_def hopInfo_ttl_def Intn_def Let_def case_prod_beta)

lemma probes_Suc:
  "probes addr config (Suc n) t g =
     (fst (traceHop t addr config g)
        # fst (probes addr config n (t + 1) (snd (traceHop t addr config g))),
      snd (probes addr config n (t + 1) (snd (traceHop t addr config g))))"
  by (simp add: case_prod_beta Let_def)

lemma length_probes: "length (fst (probes addr config n t g)) = n"
  by (induction n arbitrary: t g) (simp_all add: case_prod_beta Let_def)

lemma ttl_probes: "map ttl (fst (probes addr config n t g)) = map (\<lambda>i. t + int i) [0..<n]"
proof (induction n arbitrary: t g)
  case 0
  show ?case by simp
next
  case (Suc n)
  have "map (\<lambda>i. t + int i) [0..<Suc n] = t # map (\<lambda>i. t + 1 + int i) [0..<n]"
    by (simp add: upt_conv_Cons map_Suc_upt [symmetric] del: upt_Suc)
  then show ?case
    using Suc [of "t + 1"] by (simp add: probes_Suc traceHop_ttl del: upt_Suc probes.simps)
qed

lemma latency_probes: "\<forall>h \<in> set (fst (probes addr config n t g)). 0 \<le> latency h"
  by (induction n arbitrary: t g)
     (simp_all add: probes_Suc traceHop_latency_nonneg del: probes.simps(2))

text \<open>One unfolding of the loop, with the pair of \<open>traceHop\<close> taken apart.\<close>

lemma trace_loop_step:
  "trace_loop ctx addr config t hs g =
     (if t \<le> MaxHops config then
        (case ctx t of
           Some e \<Rightarrow> (None, Some e, g)
         | None \<Rightarrow>
             (if ip (fst (traceHop t addr config g)) = addr
              then (Some (hs @ [fst (traceHop t addr config g)], True), None,
                    snd (traceHop t addr config g))
              else trace_loop ctx addr config (t + 1) (hs @ [fst (traceHop t addr config g)])
                     (snd (traceHop t addr config g))))
      else (Some (hs, False), None, g))"
  by (subst trace_loop.simps) (simp add: case_prod_beta Let_def split: option.split)

lemma trace_loop_result:
  "trace_loop ctx addr config t hs g = (Some (hs', b), e, g') \<Longrightarrow>
   \<exists>n. e = None \<and> hs' = hs @ fst (probes addr config n t g) \<and>
       g' = snd (probes addr config n t g) \<and> loop_post ctx addr config t g n b"
proof (induction "nat (MaxHops config + 1 - t)" arbitrary: t hs g)
  case 0
  then have "\<not> t \<le> MaxHops config" by simp
  with "0.prems" have "hs' = hs \<and> \<not> b \<and> e = None \<and> g' = g"
    by (subst (asm) trace_loop_step) simp
  then show ?case
    using \<open>\<not> t \<le> MaxHops config\<close> by (intro exI [of _ 0]) (auto simp add: loop_post_def)
next
  case (Suc k)
  then have le: "t \<le> MaxHops config" by simp
  let ?hop = "fst (traceHop t addr config g)"
  let ?g1 = "snd (traceHop t addr config g)"
  from Suc.prems le have ctx: "ctx t = None"
    by (subst (asm) trace_loop_step) (simp split: option.splits)
  show ?case
  proof (cases "ip ?hop = addr")
    case True
    with Suc.prems le ctx have "hs' = hs @ [?hop] \<and> b \<and> e = None \<and> g' = ?g1"
      by (subst (asm) trace_loop_step) simp
    then show ?thesis
      using True le ctx
      by (intro exI [of _ 1]) (auto simp add: loop_post_def probes_Suc simp del: probes.simps(2))
  next
    case False
    with Suc.prems le ctx
    have rec: "trace_loop ctx addr config (t + 1) (hs @ [?hop]) ?g1 = (Some (hs', b), e, g')"
      by (subst (asm) trace_loop_step) simp
    have "k = nat (MaxHops config + 1 - (t + 1))"
      using Suc.hyps(2) by simp
    from Suc.hyps(1) [OF this rec]
    obtain n where n: "e = None" "hs' = (hs @ [?hop]) @ fst (probes addr config n (t + 1) ?g1)"
      "g' = snd (probes addr config n (t + 1) ?g1)"
      "loop_post ctx addr config (t + 1) ?g1 n b"
      by blast
    have "loop_post ctx addr config t g (Suc n) b"
    proof -
      have len: "length (fst (probes addr config n (t + 1) ?g1)) = n"
        by (rule length_probes)
      have j: "\<forall>j. t \<le> j \<and> j < t + int (Suc n) \<longrightarrow> ctx j = None"
      proof (intro allI impI)
        fix j assume "t \<le> j \<and> j < t + int (Suc n)"
        then have "j = t \<or> (t + 1 \<le> j \<and> j < t + 1 + int n)" by auto
        then show "ctx j = None"
          using ctx n(4) by (auto simp add: loop_post_def)
      qed
      show ?thesis
        using n(4) False le j len unfolding loop_post_def
        by (cases "fst (probes addr config n (t + 1) ?g1)")
           (auto simp add: probes_Suc simp del: probes.simps(2) split: if_splits)
    qed
    then show ?thesis
      using n by (intro exI [of _ "Suc n"]) (simp add: probes_Suc del: probes.simps(2))
  qed
qed

text \<open>The loop never returns a result together with an error, nor neither of them.\<close>

lemma trace_loop_exclusive:
  "trace_loop ctx addr config t hs g = (res, e, g') \<Longrightarrow> (res = None) = (e \<noteq> None)"
proof (induction "nat (MaxHops config + 1 - t)" arbitrary: t hs g)
  case 0
  then have "\<not> t \<le> MaxHops config" by simp
  with "0.prems" show ?case
    by (subst (asm) trace_loop_step) auto
next
  case (Suc k)
  then have le: "t \<le> MaxHops config" by simp
  have k: "k = nat (MaxHops config + 1 - (t + 1))"
    using Suc.hyps(2) by simp
  show ?case
  proof (cases "ctx t")
    case (Some er)
    have "trace_loop ctx addr config t hs g = (None, Some er, g)"
      by (subst trace_loop_step) (simp add: le Some)
    with Suc.prems show ?thesis by auto
  next
    case None
    show ?thesis
    proof (cases "ip (fst (traceHop t addr config g)) = addr")
      case True
      with Suc.prems le None show ?thesis
        by (subst (asm) trace_loop_step) auto
    next
      case False
      with Suc.prems le None
      have "trace_loop ctx addr config (t + 1) (hs @ [fst (traceHop t addr config g)])
              (snd (traceHop t addr config g)) = (res, e, g')"
        by (subst (asm) trace_loop_step) simp
      from Suc.hyps(1) [OF k this] show ?thesis .
    qed
  qed
qed

text \<open>
  A cancellation found at the start of iteration \<open>k\<close> ends the loop with that error,
  provided the loop gets there: no earlier iteration saw a cancellation or reached the
  target.
\<close>

lemma trace_loop_cancelled:
  "t \<le> k \<Longrightarrow> k \<le> MaxHops config \<Longrightarrow> ctx k = Some er \<Longrightarrow>
   \<forall>j. t \<le> j \<and> j < k \<longrightarrow> ctx j = None \<Longrightarrow>
   \<forall>h \<in> set (fst (probes addr config (nat (k - t)) t g)). ip h \<noteq> addr \<Longrightarrow>
   trace_loop ctx addr config t hs g = (None, Some er, snd (probes addr config (nat (k - t)) t g))"
proof (induction "nat (k - t)" arbitrary: t hs g)
  case 0
  then have "t = k" by simp
  with 0 show ?case
    by (subst trace_loop_step) simp
next
  case (Suc m)
  then have lt: "t < k" by simp
  then have n: "nat (k - t) = Suc (nat (k - (t + 1)))" by simp
  have m: "m = nat (k - (t + 1))"
    using Suc.hyps(2) by simp
  have ctx: "ctx t = None"
    using Suc.prems(4) lt by simp
  have hop: "ip (fst (traceHop t addr config g)) \<noteq> addr"
    using Suc.prems(5) unfolding n by (simp add: probes_Suc del: probes.simps(2))
  have rest: "\<forall>h \<in> set (fst (probes addr config (nat (k - (t + 1))) (t + 1)
                 (snd (traceHop t addr config g)))). ip h \<noteq> addr"
    using Suc.prems(5) unfolding n by (simp add: probes_Suc del: probes.simps(2))
  have "trace_loop ctx addr config (t + 1) (hs @ [fst (traceHop t addr config g)])
          (snd (traceHop t addr config g)) =
        (None, Some er, snd (probes addr config (nat (k - (t + 1))) (t + 1)
                               (snd (traceHop t addr config g))))"
    using lt Suc.prems(2,3,4) rest by (intro Suc.hyps(1) [OF m]) auto
  then show ?case
    using lt Suc.prems(2) ctx hop unfolding n
    by (subst trace_loop_step) (simp add: probes_Suc del: probes.simps(2))
qed

text \<open>A run of \<open>trace\<close> that returns a result, in terms of the probes it made.\<close>

lemma trace_result:
  assumes "trace resolve ctx target config g = (Some r, e, g')"
  shows "\<exists>addr n. resolve (Endpoint target) = Inr addr \<and> e = None \<and>
           hops r = fst (probes addr config n 1 g) \<and> g' = snd (probes addr config n 1 g) \<and>
           totalLatency r = calcTotalLatency (hops r) \<and>
           loop_post ctx addr config 1 g n (targetReached r)"
proof (cases "resolve (Endpoint target)")
  case (Inl msg)
  with assms show ?thesis by (simp add: trace_def)
next
  case (Inr addr)
  obtain res er g1 where loop: "trace_loop ctx addr config 1 [] g = (res, er, g1)"
    by (cases "trace_loop ctx addr config 1 [] g") auto
  with assms Inr obtain hs b where res: "res = Some (hs, b)"
    by (cases res) (auto simp add: trace_def)
  with assms Inr loop
  have r: "hops r = hs" "targetReached r = b" "totalLatency r = calcTotalLatency hs"
    "e = None" "g' = g1"
    by (auto simp add: trace_def)
  from trace_loop_result [OF loop [unfolded res]] r Inr show ?thesis
    by auto
qed

lemma calcTotalLatency_fold:
  "foldl (\<lambda>acc hop. if latency hop > acc then latency hop else acc) a hs =
     Max (insert a (latency ` set hs))"
proof (induction hs arbitrary: a)
  case Nil
  show ?case by simp
next
  case (Cons h hs)
  have "Max (insert a (latency ` set (h # hs))) =
          Max (insert (max a (latency h)) (latency ` set hs))"
  proof (cases "hs = []")
    case True
    then show ?thesis by (simp add: max.commute)
  next
    case False
    then show ?thesis by (simp add: max.assoc max.commute max.left_commute)
  qed
  moreover have "(if latency h > a then latency h else a) = max a (latency h)"
    by (simp add: max_def)
  ultimately show ?case
    using Cons [of "max a (latency h)"] by simp
qed

lemma calcTotalLatency_Max: "calcTotalLatency hs = Max (insert 0 (latency ` set hs))"
  by (simp add: calcTotalLatency_def calcTotalLatency_fold)

lemma nat_dec_digit: "n < 10 \<Longrightarrow> nat_dec n = [''0123456789'' ! n]"
  by (simp add: nat_dec.simps)

lemma nat_dec_step:
  "10 \<le> n \<Longrightarrow> nat_dec n = nat_dec (n div 10) @ [''0123456789'' ! (n mod 10)]"
  by (subst nat_dec.simps) simp

text \<open>The equations that evaluate a run of the tracer on a concrete input.\<close>

lemmas eval_simps = trace_def trace_loop_step traceHop_def traceHop_case_def hopInfo_ttl_def
  Intn_def Float64_def itoa_def nat_dec_digit nat_dec_step Let_def createDefaultConfig_def
  exampleTarget_def exampleRng_def calcTotalLatency_def

text \<open>
  A run that resolves the target to the address of the second simulated hop: the target
  is reached at ttl 2.
\<close>

lemma trace_example_reached:
  "trace (\<lambda>_. Inr ''192.168.1.2'') (\<lambda>_. None) exampleTarget createDefaultConfig exampleRng =
     (Some \<lparr>hops =
        [\<lparr>ttl = 1, ip = ''192.168.1.1'', hostname = ''router-1.local'', latency = 4,
          packetLoss = 17, jitter = 4, city = '''', country = '''', asn = '''', provider = ''''\<rparr>,
         \<lparr>ttl = 2, ip = ''192.168.1.2'', hostname = ''router-2.local'', latency = 2,
          packetLoss = 5, jitter = 2, city = '''', country = '''', asn = '''', provider = ''''\<rparr>],
        totalLatency = 4, targetReached = True\<rparr>,
      None, (fst exampleRng, 8))"
  by (simp add: eval_simps)

section \<open>Claims about the tracer\<close>

text \<open>
  C3. For every result \<open>trace\<close> returns, \<open>totalLatency\<close> is the maximum of the hop
  latencies over all recorded hops, not their sum (a run with no hop, which needs
  \<open>MaxHops < 1\<close>, has total latency 0). It is 0 when every hop latency is 0, and the hops
  with latency 0 do not change it.
\<close>

theorem trace_totalLatency_is_max:
  assumes "trace resolve ctx target config g = (Some r, e, g')"
  shows "(hops r \<noteq> [] \<longrightarrow> totalLatency r = Max (latency ` set (hops r))) \<and>
         (hops r = [] \<longrightarrow> totalLatency r = 0) \<and>
         ((\<forall>h \<in> set (hops r). latency h = 0) \<longrightarrow> totalLatency r = 0) \<and>
         totalLatency r = Max (insert 0 (latency ` {h \<in> set (hops r). latency h \<noteq> 0}))"
proof -
  from trace_result [OF assms] obtain addr n where
    hs: "hops r = fst (probes addr config n 1 g)" and
    tl: "totalLatency r = calcTotalLatency (hops r)"
    by blast
  have nonneg: "\<forall>h \<in> set (hops r). 0 \<le> latency h"
    unfolding hs by (rule latency_probes)
  have m: "totalLatency r = Max (insert 0 (latency ` set (hops r)))"
    using tl by (simp add: calcTotalLatency_Max)
  have a: "totalLatency r = Max (latency ` set (hops r))" if "hops r \<noteq> []"
  proof -
    from that obtain h where h: "h \<in> set (hops r)"
      by (cases "hops r") auto
    have "latency h \<le> Max (latency ` set (hops r))"
      using h by simp
    with nonneg h have "0 \<le> Max (latency ` set (hops r))"
      by (meson order_trans)
    with that show ?thesis
      unfolding m by (simp add: max_def)
  qed
  have b: "totalLatency r = 0" if "hops r = []"
    using that m by simp
  have c: "totalLatency r = 0" if z: "\<forall>h \<in> set (hops r). latency h = 0"
  proof -
    have eq: "insert 0 (latency ` set (hops r)) = {0}"
      using z by auto
    show ?thesis unfolding m eq by simp
  qed
  have "insert 0 (latency ` {h \<in> set (hops r). latency h \<noteq> 0}) =
          insert 0 (latency ` set (hops r))"
    by auto
  then have d: "totalLatency r = Max (insert 0 (latency ` {h \<in> set (hops r). latency h \<noteq> 0}))"
    using m by simp
  from a b c d show ?thesis by blast
qed

theorem trace_totalLatency_is_max_witness:
  "\<exists>r e g'. trace (\<lambda>_. Inr ''192.168.1.2'') (\<lambda>_. None) exampleTarget createDefaultConfig
               exampleRng = (Some r, e, g') \<and>
     map latency (hops r) = [4, 2] \<and>
     totalLatency r = Max (latency ` set (hops r)) \<and> totalLatency r = 4"
  using trace_totalLatency_is_max [OF trace_example_reached] trace_example_reached
  by simp

text \<open>
  C4. If a hop of the returned result has the target's resolved address, then
  \<open>targetReached\<close> is true, that hop is the last of the hop sequence and carries the
  lowest ttl with that address, and no later ttl was probed or appended: the hops and
  the random source are exactly those of the probes for ttl 1 up to that hop's ttl.
\<close>

theorem trace_stops_at_target:
  assumes "trace resolve ctx target config g = (Some r, e, g')"
    and "resolve (Endpoint target) = Inr addr"
    and "i < length (hops r)"
    and "ip (hops r ! i) = addr"
  shows "targetReached r \<and> Suc i = length (hops r) \<and> hops r ! i = last (hops r) \<and>
         ttl (hops r ! i) = int i + 1 \<and>
         (hops r, g') = probes addr config (Suc i) 1 g \<and>
         (\<forall>j < i. ip (hops r ! j) \<noteq> addr)"
proof -
  from trace_result [OF assms(1)] assms(2) obtain n where
    hs: "hops r = fst (probes addr config n 1 g)" and
    g': "g' = snd (probes addr config n 1 g)" and
    post: "loop_post ctx addr config 1 g n (targetReached r)"
    by auto
  have n: "length (hops r) = n"
    unfolding hs by (rule length_probes)
  have mem: "hops r ! i \<in> set (hops r)"
    using assms(3) by simp
  have reached: "targetReached r"
  proof (rule ccontr)
    assume "\<not> targetReached r"
    with post have "\<forall>h \<in> set (hops r). ip h \<noteq> addr"
      by (simp add: loop_post_def hs)
    with mem assms(4) show False by blast
  qed
  have bl: "\<forall>h \<in> set (butlast (hops r)). ip h \<noteq> addr"
    using post by (simp add: loop_post_def hs)
  have last: "Suc i = length (hops r)"
  proof (rule ccontr)
    assume "Suc i \<noteq> length (hops r)"
    with assms(3) have "i < length (butlast (hops r))" by simp
    then have "butlast (hops r) ! i \<in> set (butlast (hops r))"
      by (rule nth_mem)
    moreover have "butlast (hops r) ! i = hops r ! i"
      using \<open>i < length (butlast (hops r))\<close> by (simp add: nth_butlast)
    ultimately show False using bl assms(4) by auto
  qed
  have ne: "hops r \<noteq> []"
    using assms(3) by auto
  have l: "hops r ! i = last (hops r)"
    using last ne by (simp add: last_conv_nth [OF ne] flip: last)
  have "map ttl (hops r) ! i = 1 + int i"
    unfolding hs ttl_probes using assms(3) n by simp
  then have t: "ttl (hops r ! i) = int i + 1"
    using assms(3) by simp
  have p: "(hops r, g') = probes addr config (Suc i) 1 g"
    using hs g' n last by simp
  have f: "\<forall>j < i. ip (hops r ! j) \<noteq> addr"
  proof (intro allI impI)
    fix j assume "j < i"
    with last have j: "j < length (butlast (hops r))" by simp
    then have "butlast (hops r) ! j \<in> set (butlast (hops r))"
      by (rule nth_mem)
    with bl j show "ip (hops r ! j) \<noteq> addr"
      by (auto simp add: nth_butlast)
  qed
  from reached last l t p f show ?thesis by blast
qed

theorem trace_stops_at_target_witness:
  "\<exists>r e g'. trace (\<lambda>_. Inr ''192.168.1.2'') (\<lambda>_. None) exampleTarget createDefaultConfig
               exampleRng = (Some r, e, g') \<and>
     ip (hops r ! 1) = ''192.168.1.2'' \<and> targetReached r \<and> length (hops r) = 2 \<and>
     ttl (hops r ! 1) = 2 \<and>
     (hops r, g') = probes ''192.168.1.2'' createDefaultConfig 2 1 exampleRng \<and>
     MaxHops createDefaultConfig = 30"
proof -
  let ?r = "\<lparr>hops =
        [\<lparr>ttl = 1, ip = ''192.168.1.1'', hostname = ''router-1.local'', latency = 4,
          packetLoss = 17, jitter = 4, city = '''', country = '''', asn = '''', provider = ''''\<rparr>,
         \<lparr>ttl = 2, ip = ''192.168.1.2'', hostname = ''router-2.local'', latency = 2,
          packetLoss = 5, jitter = 2, city = '''', country = '''', asn = '''', provider = ''''\<rparr>],
        totalLatency = 4, targetReached = True\<rparr>"
  have "(1::nat) < length (hops ?r)" "ip (hops ?r ! 1) = ''192.168.1.2''"
    by simp_all
  from trace_stops_at_target [OF trace_example_reached _ this]
  have "(hops ?r, (fst exampleRng, 8::nat)) =
          probes ''192.168.1.2'' createDefaultConfig (Suc 1) 1 exampleRng"
    by simp
  then have p: "(hops ?r, (fst exampleRng, 8::nat)) =
          probes ''192.168.1.2'' createDefaultConfig 2 1 exampleRng"
    unfolding Suc_1 .
  have m: "MaxHops createDefaultConfig = 30"
    by (simp add: createDefaultConfig_def)
  show ?thesis
    using trace_example_reached p m by simp
qed

text \<open>
  A run with a budget of 14 hops and a target none of the simulated hops has: the
  budget is used up, and the hops for ttl 13 and 14 did not respond.
\<close>

lemma trace_example_timeouts:
  "\<exists>r g'. trace (\<lambda>_. Inr ''8.8.8.8'') (\<lambda>_. None) exampleTarget
             (createDefaultConfig\<lparr>MaxHops := 14\<rparr>) exampleRng = (Some r, None, g') \<and>
     map ip (hops r) =
       [''192.168.1.1'', ''192.168.1.2'', ''192.168.1.3'', ''10.4.40.1'', ''10.5.50.1'',
        ''10.6.60.1'', ''10.7.70.1'', ''10.8.80.1'', ''203.0.9.1'', ''203.0.10.1'',
        ''203.0.11.1'', ''203.0.12.1'', '''', ''''] \<and>
     \<not> targetReached r"
  by (simp add: eval_simps)

text \<open>The number of hops and their ttl values, for a budget of at least one hop.\<close>

lemma trace_hops_ttl:
  assumes "trace resolve ctx target config g = (Some r, e, g')"
    and "1 \<le> MaxHops config"
  shows "1 \<le> length (hops r) \<and> int (length (hops r)) \<le> MaxHops config \<and>
         map ttl (hops r) = map int [1..<Suc (length (hops r))] \<and>
         (\<forall>i < length (hops r). ttl (hops r ! i) = int i + 1)"
proof -
  from trace_result [OF assms(1)] obtain addr n where
    hs: "hops r = fst (probes addr config n 1 g)" and
    post: "loop_post ctx addr config 1 g n (targetReached r)"
    by blast
  have n: "length (hops r) = n"
    unfolding hs by (rule length_probes)
  have le: "int n \<le> MaxHops config"
    using post assms(2) by (simp add: loop_post_def)
  have ge: "1 \<le> n"
    using post assms(2) by (cases "targetReached r") (auto simp add: loop_post_def)
  have t: "map ttl (hops r) = map (\<lambda>i. 1 + int i) [0..<n]"
    unfolding hs by (rule ttl_probes)
  have "map (\<lambda>i. 1 + int i) [0..<n] = map int [1..<Suc n]"
    by (simp add: map_Suc_upt [symmetric] del: upt_Suc)
  with t have m: "map ttl (hops r) = map int [1..<Suc (length (hops r))]"
    using n by simp
  have p: "\<forall>i < length (hops r). ttl (hops r ! i) = int i + 1"
  proof (intro allI impI)
    fix i assume i: "i < length (hops r)"
    then have "map ttl (hops r) ! i = 1 + int i"
      unfolding t using n by simp
    with i show "ttl (hops r ! i) = int i + 1" by simp
  qed
  from ge le m p n show ?thesis by simp
qed

text \<open>
  C5. For every \<open>MaxHops \<ge> 1\<close>, a result returned by \<open>trace\<close> has at least one and at
  most \<open>MaxHops\<close> hops, and the ttl values of its hops are 1, 2, \<dots>, n in this order:
  the hop at position \<open>i\<close> (from 0) has ttl \<open>i + 1\<close> whatever its address, so a hop that
  did not respond keeps its position.
\<close>

theorem trace_hops_contiguous:
  assumes "trace resolve ctx target config g = (Some r, e, g')"
    and "1 \<le> MaxHops config"
  shows "1 \<le> length (hops r) \<and> int (length (hops r)) \<le> MaxHops config \<and>
         map ttl (hops r) = map int [1..<Suc (length (hops r))] \<and>
         (\<forall>i < length (hops r). ttl (hops r ! i) = int i + 1)"
  using assms by (rule trace_hops_ttl)

theorem trace_hops_contiguous_witness:
  "\<exists>r e g'. trace (\<lambda>_. Inr ''8.8.8.8'') (\<lambda>_. None) exampleTarget
               (createDefaultConfig\<lparr>MaxHops := 14\<rparr>) exampleRng = (Some r, e, g') \<and>
     1 \<le> MaxHops (createDefaultConfig\<lparr>MaxHops := 14\<rparr>) \<and>
     length (hops r) = 14 \<and>
     map ttl (hops r) = [1, 2, 3, 4, 5, 6, 7, 8, 9, 10, 11, 12, 13, 14] \<and>
     ip (hops r ! 12) = '''' \<and> ttl (hops r ! 12) = 13"
proof -
  from trace_example_timeouts obtain r g' where
    ev: "trace (\<lambda>_. Inr ''8.8.8.8'') (\<lambda>_. None) exampleTarget
           (createDefaultConfig\<lparr>MaxHops := 14\<rparr>) exampleRng = (Some r, None, g')" and
    ips: "map ip (hops r) =
       [''192.168.1.1'', ''192.168.1.2'', ''192.168.1.3'', ''10.4.40.1'', ''10.5.50.1'',
        ''10.6.60.1'', ''10.7.70.1'', ''10.8.80.1'', ''203.0.9.1'', ''203.0.10.1'',
        ''203.0.11.1'', ''203.0.12.1'', '''', '''']"
    by auto
  have m: "1 \<le> MaxHops (createDefaultConfig\<lparr>MaxHops := 14\<rparr>)"
    by simp
  have len: "length (hops r) = 14"
    using arg_cong [OF ips, of length] by simp
  have "map ip (hops r) ! 12 = ''''"
    unfolding ips by simp
  then have ip12: "ip (hops r ! 12) = ''''"
    using len by simp
  from trace_hops_contiguous [OF ev m]
  have "map ttl (hops r) = map int [1..<Suc (length (hops r))]"
    and "\<forall>i < length (hops r). ttl (hops r ! i) = int i + 1"
    by blast+
  then have "map ttl (hops r) = [1, 2, 3, 4, 5, 6, 7, 8, 9, 10, 11, 12, 13, 14]"
    and "ttl (hops r ! 12) = 13"
    using len by (simp_all add: upt_rec)
  with ev m len ip12 show ?thesis by (intro exI conjI)
qed

text \<open>Without a cancellation, a run whose target resolves returns a result.\<close>

lemma trace_loop_error:
  "trace_loop ctx addr config t hs g = (None, e, g') \<Longrightarrow> \<exists>k. e = ctx k \<and> ctx k \<noteq> None"
proof (induction "nat (MaxHops config + 1 - t)" arbitrary: t hs g)
  case 0
  then have "\<not> t \<le> MaxHops config" by simp
  with "0.prems" show ?case
    by (subst (asm) trace_loop_step) auto
next
  case (Suc m)
  then have le: "t \<le> MaxHops config" by simp
  have m: "m = nat (MaxHops config + 1 - (t + 1))"
    using Suc.hyps(2) by simp
  show ?case
  proof (cases "ctx t")
    case (Some er)
    have "trace_loop ctx addr config t hs g = (None, Some er, g)"
      by (subst trace_loop_step) (simp add: le Some)
    with Suc.prems have "e = Some er" by simp
    then have "e = ctx t \<and> ctx t \<noteq> None"
      using Some by simp
    then show ?thesis by (rule exI)
  next
    case None
    show ?thesis
    proof (cases "ip (fst (traceHop t addr config g)) = addr")
      case True
      with Suc.prems le None show ?thesis
        by (subst (asm) trace_loop_step) auto
    next
      case False
      with Suc.prems le None
      have "trace_loop ctx addr config (t + 1) (hs @ [fst (traceHop t addr config g)])
              (snd (traceHop t addr config g)) = (None, e, g')"
        by (subst (asm) trace_loop_step) simp
      from Suc.hyps(1) [OF m this] show ?thesis .
    qed
  qed
qed

lemma trace_returns:
  assumes "resolve (Endpoint target) = Inr addr" and "\<forall>t. ctx t = None"
  shows "\<exists>r g'. trace resolve ctx target config g = (Some r, None, g')"
proof -
  obtain res er g1 where loop: "trace_loop ctx addr config 1 [] g = (res, er, g1)"
    by (cases "trace_loop ctx addr config 1 [] g") auto
  have "res \<noteq> None"
  proof
    assume "res = None"
    with loop trace_loop_error [of ctx addr config 1 "[]" g er g1] assms(2)
    show False by auto
  qed
  then obtain hs b where "res = Some (hs, b)" by auto
  with loop assms(1) show ?thesis
    by (simp add: trace_def)
qed

text \<open>
  C6. \<open>trace\<close> returns a result or an error, never both and never neither. When the
  resolution fails it returns the resolution error and no result. When the select at the
  start of an iteration the loop gets to (no earlier iteration saw a cancellation or
  reached the target) finds the context done, it returns the context's error and no
  result; the hops recorded so far are dropped.
\<close>

theorem trace_atomic:
  "((fst (trace resolve ctx target config g) = None) =
      (fst (snd (trace resolve ctx target config g)) \<noteq> None)) \<and>
   (resolve (Endpoint target) = Inl msg \<longrightarrow>
      trace resolve ctx target config g =
        (None, Some (ResolutionError (Endpoint target) msg), g)) \<and>
   (resolve (Endpoint target) = Inr addr \<and> 1 \<le> k \<and> k \<le> MaxHops config \<and>
    ctx k = Some er \<and> (\<forall>j. 1 \<le> j \<and> j < k \<longrightarrow> ctx j = None) \<and>
    (\<forall>h \<in> set (fst (probes addr config (nat (k - 1)) 1 g)). ip h \<noteq> addr) \<longrightarrow>
      trace resolve ctx target config g =
        (None, Some er, snd (probes addr config (nat (k - 1)) 1 g)))"
proof (intro conjI impI)
  show "(fst (trace resolve ctx target config g) = None) =
          (fst (snd (trace resolve ctx target config g)) \<noteq> None)"
  proof (cases "resolve (Endpoint target)")
    case (Inl m)
    then show ?thesis by (simp add: trace_def)
  next
    case (Inr a)
    obtain res e1 g1 where loop: "trace_loop ctx a config 1 [] g = (res, e1, g1)"
      by (cases "trace_loop ctx a config 1 [] g") auto
    from trace_loop_exclusive [OF loop] loop Inr show ?thesis
      by (cases res) (auto simp add: trace_def)
  qed
next
  assume "resolve (Endpoint target) = Inl msg"
  then show "trace resolve ctx target config g =
               (None, Some (ResolutionError (Endpoint target) msg), g)"
    by (simp add: trace_def)
next
  assume a: "resolve (Endpoint target) = Inr addr \<and> 1 \<le> k \<and> k \<le> MaxHops config \<and>
    ctx k = Some er \<and> (\<forall>j. 1 \<le> j \<and> j < k \<longrightarrow> ctx j = None) \<and>
    (\<forall>h \<in> set (fst (probes addr config (nat (k - 1)) 1 g)). ip h \<noteq> addr)"
  then have "trace_loop ctx addr config 1 [] g =
               (None, Some er, snd (probes addr config (nat (k - 1)) 1 g))"
    by (intro trace_loop_cancelled) auto
  with a show "trace resolve ctx target config g =
                 (None, Some er, snd (probes addr config (nat (k - 1)) 1 g))"
    by (simp add: trace_def)
qed

theorem trace_atomic_witness:
  "trace (\<lambda>_. Inl ''no such host'') (\<lambda>_. None) exampleTarget createDefaultConfig exampleRng =
     (None, Some (ResolutionError ''example.com'' ''no such host''), exampleRng) \<and>
   trace (\<lambda>_. Inr ''8.8.8.8'') (\<lambda>t. if t \<ge> 3 then Some DeadlineExceeded else None)
     exampleTarget createDefaultConfig exampleRng =
     (None, Some DeadlineExceeded, (fst exampleRng, 8))"
proof -
  let ?ctx = "\<lambda>t::int. if t \<ge> 3 then Some DeadlineExceeded else None"
  have one: "trace (\<lambda>_. Inl ''no such host'') (\<lambda>_. None) exampleTarget createDefaultConfig
               exampleRng =
     (None, Some (ResolutionError ''example.com'' ''no such host''), exampleRng)"
    using trace_atomic [of "\<lambda>_. Inl ''no such host''" "\<lambda>_. None" exampleTarget
        createDefaultConfig exampleRng "''no such host''"]
    by (simp add: exampleTarget_def)
  have pr: "probes ''8.8.8.8'' createDefaultConfig (Suc (Suc 0)) 1 exampleRng =
     ([\<lparr>ttl = 1, ip = ''192.168.1.1'', hostname = ''router-1.local'', latency = 4,
        packetLoss = 17, jitter = 4, city = '''', country = '''', asn = '''', provider = ''''\<rparr>,
       \<lparr>ttl = 2, ip = ''192.168.1.2'', hostname = ''router-2.local'', latency = 2,
        packetLoss = 5, jitter = 2, city = '''', country = '''', asn = '''', provider = ''''\<rparr>],
      (fst exampleRng, 8))"
    by (simp add: eval_simps)
  have n: "nat (3 - 1) = Suc (Suc 0)" by simp
  have hyp: "(\<lambda>_. Inr ''8.8.8.8'') (Endpoint exampleTarget) = Inr ''8.8.8.8'' \<and> (1::int) \<le> 3 \<and>
     3 \<le> MaxHops createDefaultConfig \<and> ?ctx 3 = Some DeadlineExceeded \<and>
     (\<forall>j. 1 \<le> j \<and> j < 3 \<longrightarrow> ?ctx j = None) \<and>
     (\<forall>h \<in> set (fst (probes ''8.8.8.8'' createDefaultConfig (nat (3 - 1)) 1 exampleRng)).
        ip h \<noteq> ''8.8.8.8'')"
    unfolding n pr by (simp add: createDefaultConfig_def)
  have two: "trace (\<lambda>_. Inr ''8.8.8.8'') ?ctx exampleTarget createDefaultConfig exampleRng =
     (None, Some DeadlineExceeded, (fst exampleRng, 8))"
    using trace_atomic [of "\<lambda>_. Inr ''8.8.8.8''" ?ctx exampleTarget createDefaultConfig
        exampleRng _ "''8.8.8.8''" 3 DeadlineExceeded] hyp
    unfolding n pr by simp
  from one two show ?thesis by simp
qed

section \<open>Claims about the metrics projection\<close>

lemma jitter_filter_hopMetrics:
  "concat (map m_gauge (filter (\<lambda>m. m_name m = ''ztrace.hop.jitter'') (hopMetrics config ts hop))) =
     (if jitter hop > 0
      then [\<lparr>dp_timestamp = ts, dp_value = DoubleValue (jitter hop),
             dp_attributes = [(''ttl'', AInt (ttl hop)), (''ip'', AStr (ip hop))]\<rparr>]
      else [])"
  by (simp add: hopMetrics_def Let_def)

lemma jitter_filter_hops:
  "concat (map m_gauge (filter (\<lambda>m. m_name m = ''ztrace.hop.jitter'')
       (concat (map (hopMetrics config ts) hs)))) =
     map (\<lambda>hop. \<lparr>dp_timestamp = ts, dp_value = DoubleValue (jitter hop),
                  dp_attributes = [(''ttl'', AInt (ttl hop)), (''ip'', AStr (ip hop))]\<rparr>)
       (filter (\<lambda>hop. jitter hop > 0) hs)"
proof (induction hs)
  case Nil
  show ?case by simp
next
  case (Cons h hs)
  show ?case
    using Cons jitter_filter_hopMetrics [of config ts h] by simp
qed

text \<open>
  C1, as the code has it. The jitter gauge samples of the metrics batch are, in hop
  order, one sample (timestamp, jitter value, ttl and ip) for each hop whose jitter is
  greater than zero: the sample is emitted exactly when the hop's jitter is positive,
  whatever its latency.
\<close>

theorem convertToMetrics_jitter_samples:
  "jitterSamples (convertToMetrics config result target now) =
     map (\<lambda>hop. \<lparr>dp_timestamp = now, dp_value = DoubleValue (jitter hop),
                  dp_attributes = [(''ttl'', AInt (ttl hop)), (''ip'', AStr (ip hop))]\<rparr>)
       (filter (\<lambda>hop. jitter hop > 0) (hops result))"
  by (simp add: jitterSamples_def convertToMetrics_def Let_def jitter_filter_hops)

text \<open>
  C1, as the claim states it, fails: a hop with latency 0 and jitter 0.5 yields a
  jitter sample.
\<close>

theorem convertToMetrics_jitter_counterexample:
  "map latency (hops unmeasuredHopResult) = [0] \<and>
   jitterSamples (convertToMetrics createDefaultConfig unmeasuredHopResult exampleTarget 1000) =
     [\<lparr>dp_timestamp = 1000, dp_value = DoubleValue 0.5,
       dp_attributes = [(''ttl'', AInt 1), (''ip'', AStr ''192.168.1.1'')]\<rparr>]"
  by (simp add: jitterSamples_def convertToMetrics_def hopMetrics_def Let_def
      unmeasuredHopResult_def)

text \<open>
  The hops the tracer itself produces have a jitter value only with a positive latency.
\<close>

lemma traceHop_jitter_latency:
  "jitter (fst (traceHop t a c g)) > 0 \<Longrightarrow> latency (fst (traceHop t a c g)) > 0"
  by (simp add: traceHop_def traceHop_case_def hopInfo_ttl_def Let_def case_prod_beta
      split: if_splits)

section \<open>Claims about the trace projection\<close>

text \<open>
  C2. The identifiers do not depend on the run: every span of every batch has the
  all-zero trace id, every root span the all-zero span id, and a hop span's id is made of
  its ttl alone. So any two invocations, also concurrent ones, produce the same trace id
  and the same root span id.
\<close>

theorem convertToTraces_ids_collide:
  "map sp_traceID (ss_spans (convertToTraces config1 result1 target1 now1 now1')) =
     replicate (Suc (length (hops result1))) (replicate 16 0) \<and>
   map sp_spanID (ss_spans (convertToTraces config1 result1 target1 now1 now1')) =
     replicate 8 0 # map (\<lambda>hop. word_of_int (ttl hop) # replicate 7 0) (hops result1) \<and>
   sp_traceID (hd (ss_spans (convertToTraces config1 result1 target1 now1 now1'))) =
     sp_traceID (hd (ss_spans (convertToTraces config2 result2 target2 now2 now2'))) \<and>
   sp_spanID (hd (ss_spans (convertToTraces config1 result1 target1 now1 now1'))) =
     sp_spanID (hd (ss_spans (convertToTraces config2 result2 target2 now2 now2')))"
  by (simp add: convertToTraces_def hopSpan_def hopSpanID_def zeroTraceID_def zeroSpanID_def
      Let_def comp_def map_replicate_const)

text \<open>
  The time windows of the spans, for every input: the root span starts the truncated
  total latency before the first clock reading and ends at the second reading; every hop
  span starts with the root span and lasts the hop's truncated latency. A latency that is
  a whole number of milliseconds is not changed by the truncation.
\<close>

lemma convertToTraces_windows:
  "map (\<lambda>s. (sp_start s, sp_end s))
     (ss_spans (convertToTraces config result target now1 now2)) =
     (now1 - Duration_of_float (totalLatency result) * Millisecond, now2)
     # map (\<lambda>hop. (now1 - Duration_of_float (totalLatency result) * Millisecond,
                      now1 - Duration_of_float (totalLatency result) * Millisecond
                        + Duration_of_float (latency hop) * Millisecond))
         (hops result)"
  by (simp add: convertToTraces_def hopSpan_def Let_def comp_def)

lemma Duration_of_float_of_int: "Duration_of_float (real_of_int n) = n"
  by (simp add: Duration_of_float_def)

text \<open>
  C7, on the input of \<^verbatim>\<open>TestConvertToTraces\<close> with both clock readings equal: the
  total latency is 12.7 ms and the first hop's latency 2.5 ms, but the root span lasts
  12 ms and the first hop's span 2 ms, because the latency is converted to an integer
  before it is scaled to nanoseconds. The spans are in hop order and the hop spans
  start with the root span.
\<close>

theorem convertToTraces_duration_truncated:
  "totalLatency testTracesResult * 1000000 = 12700000 \<and>
   map latency (hops testTracesResult) = [2.5, 10.2] \<and>
   map (\<lambda>s. (sp_name s, sp_start s, sp_end s - sp_start s))
     (ss_spans (convertToTraces testTracesConfig testTracesResult testTracesTarget
        1700000000000000000 1700000000000000000)) =
     [(''traceroute to example.com'', 1699999999988000000, 12000000),
      (''hop 1: 192.168.1.1'', 1699999999988000000, 2000000),
      (''hop 2: 10.0.0.1'', 1699999999988000000, 10000000)]"
  by (simp add: convertToTraces_def hopSpan_def Let_def testTracesResult_def
      testTracesTarget_def Duration_of_float_def Millisecond_def itoa_def nat_dec_digit)


lemma keys_Put: "fst ` set (Put m k v) = insert k (fst ` set m)"
proof (induction m)
  case Nil
  show ?case by simp
next
  case (Cons a m)
  obtain k' v' where a: "a = (k', v')"
    by (cases a)
  show ?case
    using Cons unfolding a by (cases "k' = k") (simp_all add: insert_commute)
qed

lemma hopMetrics_clearEnrichment:
  "\<not> EnableGeolocation config \<Longrightarrow> \<not> EnableASNLookup config \<Longrightarrow>
   hopMetrics config ts (clearEnrichment hop) = hopMetrics config ts hop"
  by (simp add: hopMetrics_def clearEnrichment_def Let_def)

lemma hopSpan_clearEnrichment:
  "\<not> EnableGeolocation config \<Longrightarrow> \<not> EnableASNLookup config \<Longrightarrow>
   hopSpan config tid sid start (clearEnrichment hop) = hopSpan config tid sid start hop"
  by (simp add: hopSpan_def clearEnrichment_def Let_def)

lemma hopMetrics_keys:
  "\<not> EnableGeolocation config \<Longrightarrow> \<not> EnableASNLookup config \<Longrightarrow>
   m \<in> set (hopMetrics config ts hop) \<Longrightarrow> dp \<in> set (m_gauge m) \<Longrightarrow>
   fst ` set (dp_attributes dp) \<subseteq> {''ttl'', ''ip'', ''hostname''}"
  by (auto simp add: hopMetrics_def Let_def split: if_splits)

lemma hopSpan_keys:
  "\<not> EnableGeolocation config \<Longrightarrow> \<not> EnableASNLookup config \<Longrightarrow>
   fst ` set (sp_attributes (hopSpan config tid sid start hop)) \<union>
     (\<Union>ev \<in> set (sp_events (hopSpan config tid sid start hop)). fst ` set (ev_attributes ev))
   \<subseteq> {''ttl'', ''ip'', ''latency.ms'', ''hostname'', ''packet_loss.percent'', ''jitter.ms''}"
  by (simp add: hopSpan_def Let_def keys_Put)

lemma dataPointKeys_disabled:
  assumes "\<not> EnableGeolocation config" and "\<not> EnableASNLookup config"
  shows "dataPointKeys (convertToMetrics config result target now)
           \<subseteq> {''ttl'', ''ip'', ''hostname''}"
proof
  fix k assume "k \<in> dataPointKeys (convertToMetrics config result target now)"
  then obtain m dp where
    m: "m \<in> set (sm_metrics (convertToMetrics config result target now))" and
    dp: "dp \<in> set (m_gauge m)" and k: "k \<in> fst ` set (dp_attributes dp)"
    unfolding dataPointKeys_def by blast
  from m consider (hop) hop where "hop \<in> set (hops result)" "m \<in> set (hopMetrics config now hop)"
    | (summary) "dp_attributes dp = []"
    using dp by (auto simp add: convertToMetrics_def Let_def split: if_splits)
  then show "k \<in> {''ttl'', ''ip'', ''hostname''}"
  proof cases
    case hop
    from hopMetrics_keys [OF assms hop(2) dp] k show ?thesis by blast
  next
    case summary
    with k show ?thesis by simp
  qed
qed

lemma spanKeys_disabled:
  assumes "\<not> EnableGeolocation config" and "\<not> EnableASNLookup config"
  shows "spanKeys (convertToTraces config result target now1 now2)
           \<subseteq> {''hop.count'', ''total.latency.ms'', ''ttl'', ''ip'', ''latency.ms'', ''hostname'',
               ''packet_loss.percent'', ''jitter.ms''}"
proof -
  have "fst ` set (sp_attributes (hopSpan config tid sid start hop)) \<union>
     (\<Union>ev \<in> set (sp_events (hopSpan config tid sid start hop)). fst ` set (ev_attributes ev))
   \<subseteq> {''hop.count'', ''total.latency.ms'', ''ttl'', ''ip'', ''latency.ms'', ''hostname'',
       ''packet_loss.percent'', ''jitter.ms''}" for tid sid start hop
    using hopSpan_keys [OF assms, of tid sid start hop] by blast
  then show ?thesis
    unfolding spanKeys_def convertToTraces_def Let_def
    by (simp add: keys_Put UN_subset_iff)
qed

section \<open>Claims about both projections\<close>

text \<open>
  C8. With \<open>EnableGeolocation\<close> and \<open>EnableASNLookup\<close> both off, two results that
  differ at most in the city, country, asn and provider fields of their hops have the
  same metrics projection and the same trace projection, for every target (tags
  included) and clock reading; and no data point of the metrics batch has a
  \<open>city\<close>, \<open>country\<close>, \<open>asn\<close> or \<open>provider\<close> attribute, no span or span event of the
  trace batch a \<open>geo.city\<close>, \<open>geo.country\<close>, \<open>network.asn\<close> or \<open>network.provider\<close>
  attribute.
\<close>

theorem projections_without_enrichment:
  assumes "\<not> EnableGeolocation config" and "\<not> EnableASNLookup config"
    and "map clearEnrichment (hops r1) = map clearEnrichment (hops r2)"
    and "totalLatency r1 = totalLatency r2"
  shows "convertToMetrics config r1 target now = convertToMetrics config r2 target now \<and>
         convertToTraces config r1 target now1 now2 =
           convertToTraces config r2 target now1 now2 \<and>
         dataPointKeys (convertToMetrics config r1 target now)
           \<inter> {''city'', ''country'', ''asn'', ''provider''} = {} \<and>
         spanKeys (convertToTraces config r1 target now1 now2)
           \<inter> {''geo.city'', ''geo.country'', ''network.asn'', ''network.provider''} = {}"
proof -
  have len: "length (hops r1) = length (hops r2)"
    using arg_cong [OF assms(3), of length] by simp
  have cm: "map (hopMetrics config ts) (map clearEnrichment hs) = map (hopMetrics config ts) hs"
    for ts hs
    by (simp add: hopMetrics_clearEnrichment [OF assms(1,2)])
  have hm: "map (hopMetrics config ts) (hops r1) = map (hopMetrics config ts) (hops r2)" for ts
  proof -
    have "map (hopMetrics config ts) (hops r1) =
            map (hopMetrics config ts) (map clearEnrichment (hops r1))"
      by (simp only: cm)
    also have "\<dots> = map (hopMetrics config ts) (map clearEnrichment (hops r2))"
      by (simp only: assms(3))
    also have "\<dots> = map (hopMetrics config ts) (hops r2)"
      by (simp only: cm)
    finally show ?thesis .
  qed
  have cs: "map (hopSpan config tid sid start) (map clearEnrichment hs) =
              map (hopSpan config tid sid start) hs" for tid sid start hs
    by (simp add: hopSpan_clearEnrichment [OF assms(1,2)])
  have hs: "map (hopSpan config tid sid start) (hops r1) =
              map (hopSpan config tid sid start) (hops r2)" for tid sid start
  proof -
    have "map (hopSpan config tid sid start) (hops r1) =
            map (hopSpan config tid sid start) (map clearEnrichment (hops r1))"
      by (simp only: cs)
    also have "\<dots> = map (hopSpan config tid sid start) (map clearEnrichment (hops r2))"
      by (simp only: assms(3))
    also have "\<dots> = map (hopSpan config tid sid start) (hops r2)"
      by (simp only: cs)
    finally show ?thesis .
  qed
  have a: "convertToMetrics config r1 target now = convertToMetrics config r2 target now"
    by (simp add: convertToMetrics_def Let_def hm len assms(4))
  have b: "convertToTraces config r1 target now1 now2 =
             convertToTraces config r2 target now1 now2"
    by (simp add: convertToTraces_def Let_def hs len assms(4))
  have c: "dataPointKeys (convertToMetrics config r1 target now)
             \<inter> {''city'', ''country'', ''asn'', ''provider''} = {}"
    using dataPointKeys_disabled [OF assms(1,2), of r1 target now] by auto
  have d: "spanKeys (convertToTraces config r1 target now1 now2)
             \<inter> {''geo.city'', ''geo.country'', ''network.asn'', ''network.provider''} = {}"
    using spanKeys_disabled [OF assms(1,2), of r1 target now1 now2] by auto
  from a b c d show ?thesis by simp
qed

theorem projections_without_enrichment_witness:
  "convertToMetrics
     (createDefaultConfig\<lparr>EnableGeolocation := False, EnableASNLookup := False\<rparr>)
     testMetricsResult exampleTarget 1000 =
   convertToMetrics
     (createDefaultConfig\<lparr>EnableGeolocation := False, EnableASNLookup := False\<rparr>)
     (testMetricsResult\<lparr>hops := map clearEnrichment (hops testMetricsResult)\<rparr>)
     exampleTarget 1000 \<and>
   convertToTraces
     (createDefaultConfig\<lparr>EnableGeolocation := False, EnableASNLookup := False\<rparr>)
     testMetricsResult exampleTarget 1000 2000 =
   convertToTraces
     (createDefaultConfig\<lparr>EnableGeolocation := False, EnableASNLookup := False\<rparr>)
     (testMetricsResult\<lparr>hops := map clearEnrichment (hops testMetricsResult)\<rparr>)
     exampleTarget 1000 2000 \<and>
   map city (hops testMetricsResult) = [''San Francisco'', ''''] \<and>
   map asn (hops testMetricsResult) = [''AS15169'', '''']"
proof -
  let ?config = "createDefaultConfig\<lparr>EnableGeolocation := False, EnableASNLookup := False\<rparr>"
  let ?r2 = "testMetricsResult\<lparr>hops := map clearEnrichment (hops testMetricsResult)\<rparr>"
  have flags: "\<not> EnableGeolocation ?config" "\<not> EnableASNLookup ?config"
    by simp_all
  have same: "map clearEnrichment (hops testMetricsResult) = map clearEnrichment (hops ?r2)"
    by (simp add: clearEnrichment_def)
  have tl: "totalLatency testMetricsResult = totalLatency ?r2"
    by simp
  have fields: "map city (hops testMetricsResult) = [''San Francisco'', '''']"
    "map asn (hops testMetricsResult) = [''AS15169'', '''']"
    by (simp_all add: testMetricsResult_def)
  from projections_without_enrichment [OF flags same tl, of exampleTarget 1000 1000 2000] fields
  show ?thesis by simp
qed

text \<open>The ids of hop spans, for ttl values that fit a byte and are not zero.\<close>

lemma hopSpanID_eq_iff:
  "1 \<le> a \<Longrightarrow> a \<le> 255 \<Longrightarrow> 1 \<le> b \<Longrightarrow> b \<le> 255 \<Longrightarrow> hopSpanID a = hopSpanID b \<longleftrightarrow> a = b"
  by (simp add: hopSpanID_def word_of_int_eq_iff take_bit_int_eq_self)

lemma hopSpanID_not_zero: "1 \<le> a \<Longrightarrow> a \<le> 255 \<Longrightarrow> hopSpanID a \<noteq> zeroSpanID"
proof -
  assume a: "1 \<le> a" "a \<le> 255"
  have "\<not> (256::int) dvd a"
    using a by (auto dest: zdvd_imp_le)
  then have "(word_of_int a :: byte) \<noteq> 0"
    by (simp add: word_of_int_eq_0_iff)
  then show ?thesis
    by (simp add: hopSpanID_def zeroSpanID_def eval_nat_numeral)
qed

text \<open>
  C10. If the ttl values of the hops are distinct and lie in 1..255, the span ids of
  the batch are pairwise distinct: the root span's id is eight zero bytes, a hop span's
  id is the byte of its ttl followed by seven zero bytes, and every hop span's parent id
  is the root span's id.
\<close>

theorem convertToTraces_span_ids_distinct:
  assumes "distinct (map ttl (hops result))"
    and "\<forall>hop \<in> set (hops result). 1 \<le> ttl hop \<and> ttl hop \<le> 255"
  shows "distinct (map sp_spanID (ss_spans (convertToTraces config result target now1 now2))) \<and>
         map sp_spanID (ss_spans (convertToTraces config result target now1 now2)) =
           replicate 8 0 # map (\<lambda>hop. word_of_int (ttl hop) # replicate 7 0) (hops result) \<and>
         map sp_parentSpanID (tl (ss_spans (convertToTraces config result target now1 now2))) =
           replicate (length (hops result))
             (sp_spanID (hd (ss_spans (convertToTraces config result target now1 now2))))"
proof -
  have ids: "map sp_spanID (ss_spans (convertToTraces config result target now1 now2)) =
               zeroSpanID # map hopSpanID (map ttl (hops result))"
    by (simp add: convertToTraces_def hopSpan_def Let_def comp_def)
  have inj: "inj_on hopSpanID (set (map ttl (hops result)))"
    using assms(2) by (auto simp add: inj_on_def hopSpanID_eq_iff)
  have d: "distinct (map hopSpanID (map ttl (hops result)))"
    using assms(1) inj by (simp only: distinct_map)
  have z: "zeroSpanID \<notin> set (map hopSpanID (map ttl (hops result)))"
    using assms(2) hopSpanID_not_zero by fastforce
  have a: "distinct (map sp_spanID (ss_spans (convertToTraces config result target now1 now2)))"
    unfolding ids using d z by simp
  have b: "map sp_spanID (ss_spans (convertToTraces config result target now1 now2)) =
           replicate 8 0 # map (\<lambda>hop. word_of_int (ttl hop) # replicate 7 0) (hops result)"
    unfolding ids by (simp add: zeroSpanID_def hopSpanID_def comp_def)
  have c: "map sp_parentSpanID (tl (ss_spans (convertToTraces config result target now1 now2))) =
           replicate (length (hops result))
             (sp_spanID (hd (ss_spans (convertToTraces config result target now1 now2))))"
    by (simp add: convertToTraces_def hopSpan_def Let_def comp_def map_replicate_const)
  from a b c show ?thesis by simp
qed

theorem convertToTraces_span_ids_distinct_witness:
  "map ttl (hops testTracesResult) = [1, 2] \<and>
   distinct (map sp_spanID (ss_spans (convertToTraces testTracesConfig testTracesResult
      testTracesTarget 1000 2000))) \<and>
   map sp_spanID (ss_spans (convertToTraces testTracesConfig testTracesResult
      testTracesTarget 1000 2000)) =
     [[0, 0, 0, 0, 0, 0, 0, 0], [1, 0, 0, 0, 0, 0, 0, 0], [2, 0, 0, 0, 0, 0, 0, 0]]"
proof -
  have t: "map ttl (hops testTracesResult) = [1, 2]"
    by (simp add: testTracesResult_def)
  have d: "distinct (map ttl (hops testTracesResult))"
    unfolding t by simp
  have b: "\<forall>hop \<in> set (hops testTracesResult). 1 \<le> ttl hop \<and> ttl hop \<le> 255"
    by (simp add: testTracesResult_def)
  from convertToTraces_span_ids_distinct [OF d b, of testTracesConfig testTracesTarget 1000 2000] t
  show ?thesis
    by (simp add: testTracesResult_def eval_nat_numeral)
qed

text \<open>
  The hypotheses of C10 hold for every result of \<open>trace\<close> under a configuration that
  \<open>Validate\<close> accepts, which bounds \<open>MaxHops\<close> by 64.
\<close>

lemma trace_ttl_distinct_bounded:
  assumes "trace resolve ctx target config g = (Some r, e, g')" and "Validate config = None"
  shows "distinct (map ttl (hops r)) \<and> (\<forall>hop \<in> set (hops r). 1 \<le> ttl hop \<and> ttl hop \<le> 255)"
proof -
  have m: "1 \<le> MaxHops config" "MaxHops config \<le> 64"
    using assms(2) by (auto simp add: Validate_def split: if_splits option.splits)
  from trace_hops_ttl [OF assms(1) m(1)]
  have len: "int (length (hops r)) \<le> MaxHops config"
    and t: "map ttl (hops r) = map int [1..<Suc (length (hops r))]"
    by auto
  have d: "distinct (map ttl (hops r))"
    unfolding t by (simp add: distinct_map inj_on_def del: upt_Suc)
  have "\<forall>x \<in> set (map ttl (hops r)). 1 \<le> x \<and> x \<le> 255"
    unfolding t using len m(2) by (auto simp del: upt_Suc)
  with d show ?thesis by simp
qed


section \<open>Claims about stopping the receiver\<close>

text \<open>
  C9. A call of \<open>Shutdown\<close> that returns, returns no error and leaves a receiver on
  which a second call returns no error and changes nothing; after either call no job is
  left. On a receiver that was started and not yet stopped the first call does return,
  and it closes the stop channel; the second call does not close it again (closing a
  closed channel would panic).
\<close>

theorem Shutdown_idempotent:
  "(Shutdown r = Returns (e, r1) \<longrightarrow>
      e = None \<and> wg r1 = 0 \<and> stopOnce r1 \<and> Shutdown r1 = Returns (None, r1)) \<and>
   (\<not> stopOnce r0 \<longrightarrow>
      (\<exists>r2. Shutdown (snd (Start r0)) = Returns (None, r2) \<and> stopCh r2 = ChanClosed \<and>
            wg r2 = 0 \<and> Shutdown r2 = Returns (None, r2)))"
proof (rule conjI; rule impI)
  assume a: "Shutdown r = Returns (e, r1)"
  then obtain ra where ra: "stopOnce_Do_close r = Returns ra" and w: "wg_Wait ra = Returns r1"
    and e: "e = None"
    by (auto simp add: Shutdown_def split: outcome.splits)
  from ra have "stopOnce ra"
    by (auto simp add: stopOnce_Do_close_def split: if_splits chan.splits)
  with w have once: "stopOnce r1" and zero: "wg r1 = 0"
    by (auto simp add: wg_Wait_def split: if_splits)
  then have "Shutdown r1 = Returns (None, r1)"
    by (simp add: Shutdown_def stopOnce_Do_close_def wg_Wait_def)
  with e once zero
  show "e = None \<and> wg r1 = 0 \<and> stopOnce r1 \<and> Shutdown r1 = Returns (None, r1)"
    by simp
next
  assume fresh: "\<not> stopOnce r0"
  let ?r2 = "(snd (Start r0))\<lparr>stopOnce := True, stopCh := ChanClosed, wg := 0\<rparr>"
  have first: "Shutdown (snd (Start r0)) = Returns (None, ?r2)"
    using fresh by (simp add: Shutdown_def Start_def stopOnce_Do_close_def wg_Wait_def)
  have second: "Shutdown ?r2 = Returns (None, ?r2)"
    by (simp add: Shutdown_def stopOnce_Do_close_def wg_Wait_def)
  from first second
  show "\<exists>r2. Shutdown (snd (Start r0)) = Returns (None, r2) \<and> stopCh r2 = ChanClosed \<and>
             wg r2 = 0 \<and> Shutdown r2 = Returns (None, r2)"
    by (intro exI [of _ ?r2]) simp
qed

theorem Shutdown_idempotent_witness:
  "Shutdown (snd (Start (createReceiver (createDefaultConfig\<lparr>Targets := [exampleTarget]\<rparr>)))) =
     Returns (None,
       \<lparr>rcv_config = createDefaultConfig\<lparr>Targets := [exampleTarget]\<rparr>, stopCh = ChanClosed,
        stopOnce = True, wg = 0, tracer = Some ''udp''\<rparr>) \<and>
   Shutdown
       \<lparr>rcv_config = createDefaultConfig\<lparr>Targets := [exampleTarget]\<rparr>, stopCh = ChanClosed,
        stopOnce = True, wg = 0, tracer = Some ''udp''\<rparr> =
     Returns (None,
       \<lparr>rcv_config = createDefaultConfig\<lparr>Targets := [exampleTarget]\<rparr>, stopCh = ChanClosed,
        stopOnce = True, wg = 0, tracer = Some ''udp''\<rparr>) \<and>
   wg (snd (Start (createReceiver (createDefaultConfig\<lparr>Targets := [exampleTarget]\<rparr>)))) = 1"
proof -
  let ?cfg = "createDefaultConfig\<lparr>Targets := [exampleTarget]\<rparr>"
  let ?r1 = "\<lparr>rcv_config = ?cfg, stopCh = ChanClosed, stopOnce = True, wg = 0,
              tracer = Some ''udp''\<rparr>"
  have first: "Shutdown (snd (Start (createReceiver ?cfg))) = Returns (None, ?r1)"
    by (simp add: Shutdown_def Start_def stopOnce_Do_close_def wg_Wait_def createReceiver_def
        createDefaultConfig_def)
  have started: "wg (snd (Start (createReceiver ?cfg))) = 1"
    by (simp add: Start_def createReceiver_def)
  from Shutdown_idempotent [of "snd (Start (createReceiver ?cfg))" None ?r1] first
  have "Shutdown ?r1 = Returns (None, ?r1)"
    by blast
  with first started show ?thesis by simp
qed


end
